theory Spec2Isabelle
  imports Complex_Main "HOL-Library.Word"
begin

section \<open>The guided-capture session of the camera controller\<close>

text \<open>
  A shallow embedding of \<^verbatim>\<open>class CameraController\<close> (the camera controller script) and of
  the submit handler of \<^verbatim>\<open>form-handler.js\<close>.

  The controller is one mutable object; every method becomes a function from the session
  to the updated session. The browser facilities the methods call are part of the state:
  the registry of timers (\<^verbatim>\<open>setInterval\<close>, \<^verbatim>\<open>setTimeout\<close>,
  \<^verbatim>\<open>clearInterval\<close>), the wall clock, the frame the video element is showing, the
  tracks on which \<^verbatim>\<open>stop()\<close> was called, and the events dispatched on the document.
  Updates of the page (texts, classes, visibility of buttons, sounds) are left out: no
  method reads them back. The page elements the methods look up are assumed to exist.
\<close>

subsection \<open>Data\<close>

text \<open>The pose catalog \<^verbatim>\<open>this.poses\<close>, by name. \<^verbatim>\<open>this.poses[i]\<close> is
  \<^verbatim>\<open>undefined\<close> outside the catalog, and reading a property of it throws a TypeError.\<close>

definition poses :: "string list" where
  "poses = [''front'', ''left'', ''right'', ''back'']"

definition poseAt :: "nat \<Rightarrow> string option" where
  "poseAt i = (if i < length poses then Some (poses ! i) else None)"

text \<open>\<^verbatim>\<open>ImageData.data\<close> is a \<^verbatim>\<open>Uint8ClampedArray\<close> of RGBA bytes; a blob is its bytes,
  \<^verbatim>\<open>blob.size\<close> their number. A media stream is the list of its tracks.\<close>

type_synonym frame = "8 word list"
type_synonym blob = "8 word list"
type_synonym mediaStream = "nat list"

record photo =
  pose :: string
  blob :: blob
  dataUrl :: string
  timestamp :: nat
  timerUsed :: int

record timerUsage =
  timer5sCount :: nat
  timer10sCount :: nat
  averageTimer :: rat
  usageRetakeCount :: nat
  usageCancellationCount :: nat

text \<open>The \<^verbatim>\<open>detail\<close> of a \<^verbatim>\<open>photosUpdated\<close> event.\<close>

record photosUpdated =
  photoCount :: nat
  detailHasAllPhotos :: bool
  currentPose :: nat
  detailTimerUsage :: "timerUsage option"

text \<open>A registered timer: its handle, the time (ms) at which it fires next, and its
  callback. \<open>Countdown c\<close> is the interval callback of \<^verbatim>\<open>startCaptureTimer\<close> with the
  value \<open>c\<close> of its captured variable \<^verbatim>\<open>countdown\<close>; \<open>AdvancePose\<close> and
  \<open>ShowCompletion\<close> are the two timeout callbacks of \<^verbatim>\<open>capturePhoto\<close>.\<close>

datatype job = Countdown int | AdvancePose | ShowCompletion

record timer =
  handle :: nat
  due :: nat
  job :: job

record session =
  currentPoseIndex :: nat
  capturedPhotos :: "photo list"
  stream :: "mediaStream option"
  isCapturing :: bool
  timerActive :: bool
  timerInterval :: "nat option"
  selectedTimer :: int
  retakeCount :: nat
  timerCancellationCount :: nat
  clock :: nat
  timers :: "timer list"
  nextHandle :: nat
  video :: frame
  stoppedTracks :: "nat list"
  notifications :: "photosUpdated list"
  captureErrors :: nat
  cameraAlerts :: "string list"

subsection \<open>Derived queries and the notification\<close>

definition hasAllPhotos :: "session \<Rightarrow> bool" where
  "hasAllPhotos s = (length (capturedPhotos s) = 4)"

definition getTimerUsageStats :: "session \<Rightarrow> timerUsage option" where
  "getTimerUsageStats s =
     (if length (capturedPhotos s) = 0 then None
      else Some \<lparr>timer5sCount = length (filter (\<lambda>p. timerUsed p = 5) (capturedPhotos s)),
                 timer10sCount = length (filter (\<lambda>p. timerUsed p = 10) (capturedPhotos s)),
                 averageTimer = of_int (sum_list (map timerUsed (capturedPhotos s)))
                                / of_nat (length (capturedPhotos s)),
                 usageRetakeCount = retakeCount s,
                 usageCancellationCount = timerCancellationCount s\<rparr>)"

definition photoUpdateDetail :: "session \<Rightarrow> photosUpdated" where
  "photoUpdateDetail s =
     \<lparr>photoCount = length (capturedPhotos s),
      detailHasAllPhotos = hasAllPhotos s,
      currentPose = currentPoseIndex s,
      detailTimerUsage = getTimerUsageStats s\<rparr>"

definition dispatchPhotoUpdateEvent :: "session \<Rightarrow> session" where
  "dispatchPhotoUpdateEvent s = s\<lparr>notifications := notifications s @ [photoUpdateDetail s]\<rparr>"

definition updatePhotoStatus :: "session \<Rightarrow> session" where
  "updatePhotoStatus s = dispatchPhotoUpdateEvent s"

text \<open>\<^verbatim>\<open>showCaptureError\<close> and \<^verbatim>\<open>showCameraError\<close>: what the user is shown is counted,
  respectively recorded.\<close>

definition showCaptureError :: "session \<Rightarrow> session" where
  "showCaptureError s = s\<lparr>captureErrors := captureErrors s + 1\<rparr>"

definition showCameraError :: "string \<Rightarrow> session \<Rightarrow> session" where
  "showCameraError name s =
     s\<lparr>cameraAlerts := cameraAlerts s @
        [''Unable to access camera. '' @
         (if name = ''NotAllowedError'' then ''Please allow camera permissions and try again.''
          else if name = ''NotFoundError'' then ''No camera found on this device.''
          else ''Please check your camera and try again.'')]\<rparr>"

subsection \<open>The constructor\<close>

text \<open>\<^verbatim>\<open>init\<close> calls \<^verbatim>\<open>updatePhotoStatus\<close>, which dispatches the first notification.
  Timer handles are positive, as in a browser.\<close>

definition newCameraController :: session where
  "newCameraController =
     updatePhotoStatus
       \<lparr>currentPoseIndex = 0, capturedPhotos = [], stream = None, isCapturing = False,
        timerActive = False, timerInterval = None, selectedTimer = 5, retakeCount = 0,
        timerCancellationCount = 0, clock = 0, timers = [], nextHandle = 1, video = [],
        stoppedTracks = [], notifications = [], captureErrors = 0, cameraAlerts = []\<rparr>"

subsection \<open>Opening and closing the camera\<close>

text \<open>\<^verbatim>\<open>openCamera\<close> from the point where \<^verbatim>\<open>getUserMedia\<close> settles: \<open>Inl name\<close> is a
  rejection with the error of that name, \<open>Inr st\<close> the stream. \<^verbatim>\<open>updatePoseGuide\<close> reads
  \<^verbatim>\<open>pose.instruction\<close>, so outside the catalog it throws inside the \<^verbatim>\<open>try\<close>.\<close>

definition openCamera :: "string + mediaStream \<Rightarrow> session \<Rightarrow> session" where
  "openCamera r s =
     (case r of
        Inl name \<Rightarrow> showCameraError name s
      | Inr st \<Rightarrow>
          let s1 = s\<lparr>stream := Some st\<rparr>;
              s2 = (if length (capturedPhotos s1) = 0 then s1\<lparr>currentPoseIndex := 0\<rparr> else s1)
          in (case poseAt (currentPoseIndex s2) of
                None \<Rightarrow> showCameraError ''TypeError'' s2
              | Some p \<Rightarrow> s2))"

definition clearInterval :: "nat \<Rightarrow> session \<Rightarrow> session" where
  "clearInterval h s = s\<lparr>timers := filter (\<lambda>t. handle t \<noteq> h) (timers s)\<rparr>"

text \<open>\<^verbatim>\<open>if (this.timerInterval)\<close> is false for \<^verbatim>\<open>null\<close> and for the number 0.\<close>

definition cancelTimer :: "session \<Rightarrow> session" where
  "cancelTimer s =
     (if \<not> timerActive s then s
      else
        let s1 = s\<lparr>timerCancellationCount := timerCancellationCount s + 1\<rparr>;
            s2 = (case timerInterval s1 of
                    None \<Rightarrow> s1
                  | Some h \<Rightarrow> if h \<noteq> 0 then (clearInterval h s1)\<lparr>timerInterval := None\<rparr> else s1)
        in s2\<lparr>timerActive := False\<rparr>)"

definition closeCamera :: "session \<Rightarrow> session" where
  "closeCamera s =
     (let s1 = cancelTimer s;
          s2 = (case stream s1 of
                  None \<Rightarrow> s1
                | Some st \<Rightarrow> s1\<lparr>stoppedTracks := stoppedTracks s1 @ st, stream := None\<rparr>)
      in updatePhotoStatus s2)"

subsection \<open>The countdown\<close>

text \<open>\<^verbatim>\<open>showTimerCountdown\<close> reads \<^verbatim>\<open>this.poses[this.currentPoseIndex].name\<close>: outside the
  catalog the handler stops there, after \<^verbatim>\<open>timerActive\<close> was set and before
  \<^verbatim>\<open>setInterval\<close>.\<close>

definition startCaptureTimer :: "session \<Rightarrow> session" where
  "startCaptureTimer s =
     (if isCapturing s \<or> timerActive s then s
      else
        let s1 = s\<lparr>timerActive := True\<rparr>
        in (case poseAt (currentPoseIndex s1) of
              None \<Rightarrow> s1
            | Some p \<Rightarrow>
                s1\<lparr>timerInterval := Some (nextHandle s1),
                   timers := timers s1 @
                     [\<lparr>handle = nextHandle s1, due = clock s1 + 1000,
                       job = Countdown (selectedTimer s1)\<rparr>],
                   nextHandle := nextHandle s1 + 1\<rparr>))"

subsection \<open>Capturing a frame\<close>

text \<open>A read beyond the end of the array gives \<^verbatim>\<open>undefined\<close>, and every comparison with
  \<^verbatim>\<open>undefined\<close> is false.\<close>

definition px :: "frame \<Rightarrow> nat \<Rightarrow> 8 word option" where
  "px pixels i = (if i < length pixels then Some (pixels ! i) else None)"

definition gt :: "8 word option \<Rightarrow> 8 word \<Rightarrow> bool" where
  "gt v c = (case v of None \<Rightarrow> False | Some x \<Rightarrow> c < x)"

definition lt :: "8 word option \<Rightarrow> 8 word \<Rightarrow> bool" where
  "lt v c = (case v of None \<Rightarrow> False | Some x \<Rightarrow> x < c)"

definition pixelHasContent :: "frame \<Rightarrow> nat \<Rightarrow> bool" where
  "pixelHasContent pixels i =
     (let r = px pixels i; g = px pixels (i + 1); b = px pixels (i + 2)
      in gt r 10 \<and> gt g 10 \<and> gt b 10 \<and> (lt r 245 \<or> lt g 245 \<or> lt b 245))"

function hasContentFrom :: "frame \<Rightarrow> nat \<Rightarrow> bool" where
  "hasContentFrom pixels i =
     (if i < length pixels
      then (if pixelHasContent pixels i then True else hasContentFrom pixels (i + 4))
      else False)"
  by pat_completeness auto
termination
  by (relation "measure (\<lambda>(pixels, i). length pixels - i)") auto

declare hasContentFrom.simps [simp del]

definition hasContent :: "frame \<Rightarrow> bool" where
  "hasContent pixels = hasContentFrom pixels 0"

text \<open>The test of the \<^verbatim>\<open>toBlob\<close> callback: \<^verbatim>\<open>blob && blob.size > 1000\<close>.\<close>

definition blobValid :: "blob option \<Rightarrow> bool" where
  "blobValid b = (case b of None \<Rightarrow> False | Some bl \<Rightarrow> 1000 < length bl)"

text \<open>\<^verbatim>\<open>capturePhoto\<close> up to its \<^verbatim>\<open>await\<close>. A frame without content (a video of size
  zero has no pixels at all) throws into the \<^verbatim>\<open>catch\<close>, and \<^verbatim>\<open>finally\<close> clears the busy
  flag; otherwise the call is suspended with the busy flag set until the encoder calls back.\<close>

definition capturePhoto :: "session \<Rightarrow> session" where
  "capturePhoto s =
     (if isCapturing s then s
      else
        let s1 = s\<lparr>isCapturing := True\<rparr>
        in if \<not> hasContent (video s1) then (showCaptureError s1)\<lparr>isCapturing := False\<rparr>
           else s1)"

text \<open>The rest of \<^verbatim>\<open>capturePhoto\<close>, run when the encoder calls back with \<open>b\<close>
  (\<open>None\<close> is \<^verbatim>\<open>null\<close>); \<open>url\<close> is what \<^verbatim>\<open>canvas.toDataURL\<close> returns. Without a capture
  in flight there is no callback to run.\<close>

definition storePhoto :: "photo \<Rightarrow> session \<Rightarrow> session" where
  "storePhoto photoData s =
     (if length (capturedPhotos s) \<le> currentPoseIndex s
      then s\<lparr>capturedPhotos := capturedPhotos s @ [photoData]\<rparr>
      else s\<lparr>capturedPhotos := (capturedPhotos s)[currentPoseIndex s := photoData]\<rparr>)"

definition setTimeout :: "job \<Rightarrow> nat \<Rightarrow> session \<Rightarrow> session" where
  "setTimeout j delay s =
     s\<lparr>timers := timers s @ [\<lparr>handle = nextHandle s, due = clock s + delay, job = j\<rparr>],
       nextHandle := nextHandle s + 1\<rparr>"

definition toBlobDone :: "blob option \<Rightarrow> string \<Rightarrow> session \<Rightarrow> session" where
  "toBlobDone b url s =
     (if \<not> isCapturing s then s
      else
        (case b of
           None \<Rightarrow> (showCaptureError s)\<lparr>isCapturing := False\<rparr>
         | Some bl \<Rightarrow>
             if \<not> blobValid (Some bl) then (showCaptureError s)\<lparr>isCapturing := False\<rparr>
             else
               (case poseAt (currentPoseIndex s) of
                  None \<Rightarrow> (showCaptureError s)\<lparr>isCapturing := False\<rparr>
                | Some name \<Rightarrow>
                    let photoData = \<lparr>pose = name, blob = bl, dataUrl = url,
                                     timestamp = clock s, timerUsed = selectedTimer s\<rparr>;
                        s1 = storePhoto photoData s;
                        s2 = dispatchPhotoUpdateEvent s1;
                        s3 = (if currentPoseIndex s2 < length poses - 1
                              then setTimeout AdvancePose 1500 s2
                              else setTimeout ShowCompletion 1500 s2)
                    in s3\<lparr>isCapturing := False\<rparr>)))"

subsection \<open>Retake and reset\<close>

text \<open>\<^verbatim>\<open>splice(i, 1)\<close> removes the element at \<open>i\<close>. \<^verbatim>\<open>updatePoseGuide\<close> throws outside
  the catalog, which ends the handler before the notification.\<close>

definition retakeCurrentPhoto :: "session \<Rightarrow> session" where
  "retakeCurrentPhoto s =
     (let s1 = s\<lparr>retakeCount := retakeCount s + 1\<rparr>;
          s2 = (if currentPoseIndex s1 < length (capturedPhotos s1)
                then s1\<lparr>capturedPhotos := take (currentPoseIndex s1) (capturedPhotos s1) @
                                          drop (currentPoseIndex s1 + 1) (capturedPhotos s1)\<rparr>
                else s1)
      in (case poseAt (currentPoseIndex s2) of
            None \<Rightarrow> s2
          | Some p \<Rightarrow> dispatchPhotoUpdateEvent s2))"

definition clearPhotos :: "session \<Rightarrow> session" where
  "clearPhotos s =
     (let s1 = s\<lparr>capturedPhotos := [], currentPoseIndex := 0, retakeCount := 0,
                 timerCancellationCount := 0\<rparr>
      in dispatchPhotoUpdateEvent (updatePhotoStatus s1))"

subsection \<open>Timers firing\<close>

text \<open>The callback of a timer. An interval stays registered and fires again 1000 ms later;
  a timeout is gone once it has fired. (The timeouts of \<^verbatim>\<open>showCaptureSuccess\<close> and
  \<^verbatim>\<open>showCaptureError\<close> only restyle the page and are not registered here.) The interval callback decrements its own
  \<^verbatim>\<open>countdown\<close> and, at zero or below, resets the two timer fields and captures.\<close>

definition rearm :: "timer \<Rightarrow> int \<Rightarrow> session \<Rightarrow> session" where
  "rearm t c s =
     s\<lparr>timers := map (\<lambda>u. if handle u = handle t
                           then u\<lparr>due := due t + 1000, job := Countdown c\<rparr> else u) (timers s)\<rparr>"

definition fireTimer :: "timer \<Rightarrow> session \<Rightarrow> session" where
  "fireTimer t s =
     (case job t of
        Countdown c \<Rightarrow>
          let countdown = c - 1;
              s1 = rearm t countdown s
          in if countdown \<le> 0
             then capturePhoto (s1\<lparr>timerInterval := None, timerActive := False\<rparr>)
             else s1
      | AdvancePose \<Rightarrow>
          (clearInterval (handle t) s)\<lparr>currentPoseIndex := currentPoseIndex s + 1\<rparr>
      | ShowCompletion \<Rightarrow> clearInterval (handle t) s)"

fun earliest :: "timer list \<Rightarrow> timer option" where
  "earliest [] = None"
| "earliest (t # ts) =
     (case earliest ts of
        None \<Rightarrow> Some t
      | Some u \<Rightarrow> if due t \<le> due u then Some t else Some u)"

text \<open>Time passes: by \<open>d\<close> ms if no timer is due until then, otherwise up to the first timer
  that is due, which fires. Time never skips a timer.\<close>

definition elapse :: "nat \<Rightarrow> session \<Rightarrow> session" where
  "elapse d s =
     (case earliest (timers s) of
        None \<Rightarrow> s\<lparr>clock := clock s + d\<rparr>
      | Some t \<Rightarrow>
          if due t \<le> clock s + d then fireTimer t (s\<lparr>clock := max (clock s) (due t)\<rparr>)
          else s\<lparr>clock := clock s + d\<rparr>)"

subsection \<open>Events\<close>

text \<open>What the page and its user can do to the controller, as bound in \<^verbatim>\<open>bindEvents\<close>.\<close>

datatype event =
    GetUserMedia "string + mediaStream"
  | SelectTimer5
  | SelectTimer10
  | ClickCapture
  | ClickCancelTimer
  | ClickRetake
  | ClickCloseCamera
  | KeyEscape
  | VideoFrame frame
  | ToBlob "blob option" string
  | Elapse nat

fun step :: "session \<Rightarrow> event \<Rightarrow> session" where
  "step s (GetUserMedia r) = openCamera r s"
| "step s SelectTimer5 = s\<lparr>selectedTimer := 5\<rparr>"
| "step s SelectTimer10 = s\<lparr>selectedTimer := 10\<rparr>"
| "step s ClickCapture = startCaptureTimer s"
| "step s ClickCancelTimer = cancelTimer s"
| "step s ClickRetake = retakeCurrentPhoto s"
| "step s ClickCloseCamera = closeCamera s"
| "step s KeyEscape =
     (if timerActive s then cancelTimer s
      else if stream s \<noteq> None then closeCamera s else s)"
| "step s (VideoFrame f) = s\<lparr>video := f\<rparr>"
| "step s (ToBlob b url) = toBlobDone b url s"
| "step s (Elapse d) = elapse d s"

definition run :: "event list \<Rightarrow> session" where
  "run es = foldl step newCameraController es"

subsection \<open>The page and the submit handler\<close>

text \<open>The controller script ends with
  \<^verbatim>\<open>let cameraController;\<close> and a \<^verbatim>\<open>DOMContentLoaded\<close> listener that assigns
  \<^verbatim>\<open>cameraController = new CameraController()\<close>. A top-level \<^verbatim>\<open>let\<close> of a script makes a
  global binding that is not a property of \<^verbatim>\<open>window\<close>, and no script assigns
  \<^verbatim>\<open>window.cameraController\<close>. The page therefore has both: the binding, which holds the
  controller, and the property the other scripts read, which stays \<^verbatim>\<open>undefined\<close>.\<close>

record page =
  cameraController :: "session option"
  windowCameraController :: "session option"

text \<open>The page once it is loaded, with its controller in the state \<open>c\<close>.\<close>

definition pageWith :: "session \<Rightarrow> page" where
  "pageWith c = \<lparr>cameraController = Some c, windowCameraController = None\<rparr>"

text \<open>\<^verbatim>\<open>validateAvatarForm\<close> on the values of the two number fields (\<open>None\<close> is an empty
  field) and the checked gender button, and the branch of the submit handler, which reads
  \<^verbatim>\<open>window.cameraController && window.cameraController.hasAllPhotos()\<close>.\<close>

record avatarForm =
  height :: "rat option"
  weight :: "rat option"
  gender :: "string option"

definition validateAvatarForm :: "avatarForm \<Rightarrow> bool" where
  "validateAvatarForm f =
     (let v1 = (case height f of None \<Rightarrow> False | Some h \<Rightarrow> \<not> (h < 120 \<or> h > 220));
          v2 = (case weight f of None \<Rightarrow> False | Some w \<Rightarrow> \<not> (w < 30 \<or> w > 200));
          v3 = (gender f \<noteq> None)
      in v1 \<and> v2 \<and> v3)"

datatype submission = Rejected | Basic | Enhanced

definition submitForm :: "avatarForm \<Rightarrow> page \<Rightarrow> submission" where
  "submitForm f pg =
     (if \<not> validateAvatarForm f then Rejected
      else
        let hasPhotos = (case windowCameraController pg of
                           None \<Rightarrow> False
                         | Some c \<Rightarrow> hasAllPhotos c)
        in if hasPhotos then Enhanced else Basic)"

subsection \<open>Concrete sessions\<close>

text \<open>A frame of one mid-grey pixel, an encoded image of 2048 bytes, and one of exactly
  1000 bytes.\<close>

definition greyFrame :: frame where
  "greyFrame = [128, 128, 128, 255]"

definition jpegBlob :: blob where
  "jpegBlob = replicate 2048 0"


text \<open>The countdown intervals the browser still has registered.\<close>

definition countdownIntervals :: "session \<Rightarrow> timer list" where
  "countdownIntervals s =
     filter (\<lambda>t. case job t of Countdown c \<Rightarrow> True | AdvancePose \<Rightarrow> False
                              | ShowCompletion \<Rightarrow> False) (timers s)"

text \<open>The camera is opened, the capture button is pressed once at time 0 with the 5 s
  timer, and five seconds pass: the fifth tick brings the countdown to zero and starts the
  capture.\<close>

definition firstCountdown :: "event list" where
  "firstCountdown =
     [GetUserMedia (Inr [0]), VideoFrame greyFrame, ClickCapture,
      Elapse 1000, Elapse 1000, Elapse 1000, Elapse 1000, Elapse 1000]"

text \<open>After the first countdown nobody touches the page. The encoder answers each capture
  at once. Times in ms: photo at 5000; tick and photo at 6000; pose advance at 6500; tick
  and photo at 7000; advance at 7500; tick and photo at 8000; advance at 8500; tick and
  photo at 9000; advance at 9500.\<close>

definition unattended :: "event list" where
  "unattended =
     firstCountdown @
     [ToBlob (Some jpegBlob) ''photo5'',
      Elapse 1000, ToBlob (Some jpegBlob) ''photo6'', Elapse 500,
      Elapse 500, ToBlob (Some jpegBlob) ''photo7'', Elapse 500,
      Elapse 500, ToBlob (Some jpegBlob) ''photo8'', Elapse 500,
      Elapse 500, ToBlob (Some jpegBlob) ''photo9'', Elapse 500]"

text \<open>The session at 6000 ms: the running interval has taken the first photo again, and
  two pose advances are pending, for 6500 ms and 7500 ms.\<close>

definition secondPose :: "event list" where
  "secondPose =
     firstCountdown @
     [ToBlob (Some jpegBlob) ''photo5'',
      Elapse 1000, ToBlob (Some jpegBlob) ''photo6'']"

text \<open>The pose advances at 6500 ms and the second pose is photographed at 7000 ms. The
  user presses Retake at 7100 ms, within the pause after that photo, and the pose advance
  scheduled at 6000 ms fires at 7500 ms.\<close>

definition retakeInPause :: "event list" where
  "retakeInPause =
     secondPose @
     [Elapse 500,
      Elapse 500, ToBlob (Some jpegBlob) ''photo7'',
      Elapse 100, ClickRetake,
      Elapse 400]"

text \<open>The camera is open, the video element has no frame yet, and a countdown started at
  time 0 is four seconds old: the next tick brings it to zero.\<close>

definition lastTick :: "event list" where
  "lastTick =
     [GetUserMedia (Inr [0]), ClickCapture, Elapse 1000, Elapse 1000, Elapse 1000, Elapse 1000]"

text \<open>The encoder is slow: the capture that the tick at 6000 ms starts is answered at
  6600 ms, after the pose advance of 6500 ms.\<close>

definition lateEncoder :: "event list" where
  "lateEncoder =
     firstCountdown @
     [ToBlob (Some jpegBlob) ''photo5'',
      Elapse 1000, Elapse 500, Elapse 100, ToBlob (Some jpegBlob) ''photo6'']"

text \<open>The user closes the camera 200 ms after the first photo.\<close>

definition closedAfterPhoto :: "event list" where
  "closedAfterPhoto =
     firstCountdown @ [ToBlob (Some jpegBlob) ''photo5'', Elapse 200, ClickCloseCamera]"

text \<open>The user starts a second countdown 200 ms after the first photo.\<close>

definition secondCountdown :: "event list" where
  "secondCountdown =
     firstCountdown @ [ToBlob (Some jpegBlob) ''photo5'', Elapse 200, ClickCapture]"

text \<open>A form that passes validation.\<close>

definition okForm :: avatarForm where
  "okForm = \<lparr>height = Some 170, weight = Some 65, gender = Some ''female''\<rparr>"

subsection \<open>Unfolding the model\<close>

lemmas session_defs =
  hasAllPhotos_def getTimerUsageStats_def photoUpdateDetail_def dispatchPhotoUpdateEvent_def
  updatePhotoStatus_def showCaptureError_def showCameraError_def newCameraController_def
  openCamera_def clearInterval_def cancelTimer_def closeCamera_def startCaptureTimer_def
  capturePhoto_def storePhoto_def setTimeout_def toBlobDone_def retakeCurrentPhoto_def
  rearm_def fireTimer_def elapse_def run_def poseAt_def poses_def blobValid_def Let_def

lemma hasContent_greyFrame: "hasContent greyFrame"
  by (simp add: hasContent_def greyFrame_def hasContentFrom.simps [of _ 0]
      pixelHasContent_def px_def gt_def lt_def)

lemma not_hasContent_Nil: "\<not> hasContent []"
  by (simp add: hasContent_def hasContentFrom.simps [of _ 0])

lemma length_jpegBlob: "length jpegBlob = 2048"
  by (simp add: jpegBlob_def)


lemmas concrete_simps = hasContent_greyFrame length_jpegBlob

section \<open>The countdown timer\<close>

text \<open>What \<^verbatim>\<open>cancelTimer\<close> leaves alone, and what it does to the timer it knows.\<close>

lemma cancelTimer_frame:
  "capturedPhotos (cancelTimer s) = capturedPhotos s"
  "currentPoseIndex (cancelTimer s) = currentPoseIndex s"
  "retakeCount (cancelTimer s) = retakeCount s"
  "selectedTimer (cancelTimer s) = selectedTimer s"
  "stream (cancelTimer s) = stream s"
  "stoppedTracks (cancelTimer s) = stoppedTracks s"
  "notifications (cancelTimer s) = notifications s"
  "\<not> timerActive (cancelTimer s)"
  "timerCancellationCount (cancelTimer s) =
     (if timerActive s then timerCancellationCount s + 1 else timerCancellationCount s)"
  by (simp_all add: cancelTimer_def clearInterval_def Let_def split: option.splits)

lemma cancelTimer_clears:
  "timerActive s \<Longrightarrow> timerInterval s = Some h \<Longrightarrow> h \<noteq> 0 \<Longrightarrow>
     timerInterval (cancelTimer s) = None \<and> h \<notin> handle ` set (timers (cancelTimer s))"
  by (auto simp: cancelTimer_def clearInterval_def Let_def)

lemma startCaptureTimer_busy:
  "isCapturing s \<or> timerActive s \<Longrightarrow> startCaptureTimer s = s"
  by (simp add: startCaptureTimer_def)

text \<open>
  C1. The claim: at most one countdown timer is active at any time, and after a cancel, a
  close or the countdown reaching zero no timer remains running.

  The code does not do this when the countdown reaches zero. \<^verbatim>\<open>cancelTimer\<close> calls
  \<^verbatim>\<open>clearInterval\<close>; the interval callback, at zero, only assigns
  \<^verbatim>\<open>this.timerInterval = null\<close>. After the first countdown the session says that no timer
  is active, the interval with handle 1 is still registered, and a second press of the
  capture button, 200 ms after the photo, registers another one beside it.
\<close>

theorem countdown_interval_left_running:
  "\<not> timerActive (run firstCountdown) \<and>
   timerInterval (run firstCountdown) = None \<and>
   map handle (countdownIntervals (run firstCountdown)) = [1] \<and>
   map handle (countdownIntervals
     (run (firstCountdown @ [ToBlob (Some jpegBlob) ''photo5'', Elapse 200, ClickCapture]))) =
     [1, 3]"
  by (simp add: firstCountdown_def countdownIntervals_def session_defs concrete_simps)

section \<open>The pose index\<close>

text \<open>
  C8. The claim: \<^verbatim>\<open>currentPoseIndex\<close> stays within 0..3 in every reachable state.

  The interval left running after the first countdown fires every second with
  \<^verbatim>\<open>countdown <= 0\<close> and captures each time. Each capture of a non-final pose schedules an
  unguarded \<^verbatim>\<open>currentPoseIndex++\<close> 1500 ms later, so two of them can be pending at once.
  With one press of the capture button and nothing else, the index is 4 after 9.5 s, and
  there is no pose at that index.
\<close>

theorem pose_index_leaves_catalog:
  "currentPoseIndex (run unattended) = 4 \<and>
   length (capturedPhotos (run unattended)) = 4 \<and>
   clock (run unattended) = 9500 \<and>
   poseAt (currentPoseIndex (run unattended)) = None"
  by (simp add: unattended_def firstCountdown_def session_defs concrete_simps)

section \<open>Frame validation\<close>








section \<open>Failed captures\<close>

text \<open>What a failing capture itself does: a frame without content gives back the same
  session with one more error shown.\<close>

lemma capturePhoto_without_content:
  "\<not> isCapturing s \<Longrightarrow> \<not> hasContent (video s) \<Longrightarrow>
     capturePhoto s = s\<lparr>captureErrors := captureErrors s + 1\<rparr>"
  by (simp add: capturePhoto_def showCaptureError_def)

text \<open>
  C3. The claim: when a capture fails validation the session state is unchanged and the
  session remains awaiting a capture, with no timer running.

  The camera is open, the video has no frame yet, and the countdown reaches zero at
  5000 ms. The capture fails: one error is shown, and photos, pose index and timer
  selection are those of before. The session is not back to awaiting a capture, however:
  the interval of the countdown is still registered, since the callback does not clear it
  at zero. It fires again at 6000 ms and a second capture fails, with nobody pressing
  anything; and once the video has a frame, the tick at 7000 ms takes a photo.
\<close>

theorem failed_capture_repeats:
  "timerActive (run lastTick) \<and>
   captureErrors (run lastTick) = 0 \<and>
   captureErrors (run (lastTick @ [Elapse 1000])) = 1 \<and>
   capturedPhotos (run (lastTick @ [Elapse 1000])) = [] \<and>
   currentPoseIndex (run (lastTick @ [Elapse 1000])) = 0 \<and>
   selectedTimer (run (lastTick @ [Elapse 1000])) = 5 \<and>
   \<not> timerActive (run (lastTick @ [Elapse 1000])) \<and>
   \<not> isCapturing (run (lastTick @ [Elapse 1000])) \<and>
   timers (run (lastTick @ [Elapse 1000])) = [\<lparr>handle = 1, due = 6000, job = Countdown 0\<rparr>] \<and>
   captureErrors (run (lastTick @ [Elapse 1000, Elapse 1000])) = 2 \<and>
   length (capturedPhotos (run (lastTick @
     [Elapse 1000, Elapse 1000, VideoFrame greyFrame, Elapse 1000,
      ToBlob (Some jpegBlob) ''photo7'']))) = 1"
  by (simp add: lastTick_def session_defs concrete_simps not_hasContent_Nil)

section \<open>The size of the encoded image\<close>




section \<open>Storing a photo\<close>

text \<open>
  C2. The claim: after a successful capture the new photo is at the index that was
  \<^verbatim>\<open>currentPoseIndex\<close> when the capture started.

  \<^verbatim>\<open>capturePhoto\<close> assigns at \<^verbatim>\<open>currentPoseIndex\<close> only when the list is longer than the
  index, and pushes otherwise, also when the list is shorter than the index. At 7100 ms the
  user retakes the photo of the second pose, taken at 7000 ms, and at 7500 ms a pending
  pose advance fires: one photo is left and the index is 2. The next capture starts at
  index 2 and succeeds; the photo list grows from one to two photos, so there is no photo
  at index 2, and the new photo, of the pose \<open>right\<close>, is at index 1, where the display and
  a later retake take it for the photo of the pose \<open>left\<close>.
\<close>

theorem photo_appended_before_its_slot:
  "currentPoseIndex (run retakeInPause) = 2 \<and>
   length (capturedPhotos (run retakeInPause)) = 1 \<and>
   \<not> isCapturing (run retakeInPause) \<and>
   length (capturedPhotos
     (run (retakeInPause @ [Elapse 500, ToBlob (Some jpegBlob) ''photo8'']))) = 2 \<and>
   \<not> 2 < length (capturedPhotos
     (run (retakeInPause @ [Elapse 500, ToBlob (Some jpegBlob) ''photo8'']))) \<and>
   capturedPhotos (run (retakeInPause @ [Elapse 500, ToBlob (Some jpegBlob) ''photo8''])) ! 1 =
     \<lparr>pose = ''right'', blob = jpegBlob, dataUrl = ''photo8'', timestamp = 8000,
      timerUsed = 5\<rparr>"
  by (simp add: retakeInPause_def secondPose_def firstCountdown_def session_defs concrete_simps)

text \<open>The index is read again when the encoder answers. A capture that starts at index 0
  and is answered after the pose advance is stored at index 1 as a photo of the pose
  \<open>left\<close>.\<close>

lemma late_answer_stored_at_later_index:
  "currentPoseIndex (run (firstCountdown @ [ToBlob (Some jpegBlob) ''photo5'', Elapse 1000])) = 0 \<and>
   isCapturing (run (firstCountdown @ [ToBlob (Some jpegBlob) ''photo5'', Elapse 1000])) \<and>
   map pose (capturedPhotos (run lateEncoder)) = [''front'', ''left''] \<and>
   map timestamp (capturedPhotos (run lateEncoder)) = [5000, 6600]"
  by (simp add: lateEncoder_def firstCountdown_def session_defs concrete_simps)

section \<open>Retake\<close>




section \<open>Closing the camera\<close>

text \<open>What \<^verbatim>\<open>closeCamera\<close> does to the session's own fields, and to the one interval
  whose handle the session holds while \<^verbatim>\<open>timerActive\<close> is set.\<close>

lemma closeCamera_effects:
  "let s' = closeCamera s
   in \<not> timerActive s' \<and>
      timerCancellationCount s' =
        (if timerActive s then timerCancellationCount s + 1 else timerCancellationCount s) \<and>
      (\<forall>h. timerActive s \<and> timerInterval s = Some h \<and> h \<noteq> 0 \<longrightarrow>
           timerInterval s' = None \<and> h \<notin> handle ` set (timers s')) \<and>
      stream s' = None \<and>
      (\<forall>st. stream s = Some st \<longrightarrow> set st \<subseteq> set (stoppedTracks s')) \<and>
      capturedPhotos s' = capturedPhotos s \<and>
      currentPoseIndex s' = currentPoseIndex s \<and>
      retakeCount s' = retakeCount s \<and>
      selectedTimer s' = selectedTimer s \<and>
      (capturedPhotos s \<noteq> [] \<and> currentPoseIndex s < 4 \<longrightarrow>
         openCamera (Inr st') s' = s'\<lparr>stream := Some st'\<rparr>)"
proof -
  have 1: "\<forall>h. timerActive s \<and> timerInterval s = Some h \<and> h \<noteq> 0 \<longrightarrow>
           timerInterval (closeCamera s) = None \<and> h \<notin> handle ` set (timers (closeCamera s))"
    using cancelTimer_clears [of s]
    by (simp add: closeCamera_def updatePhotoStatus_def dispatchPhotoUpdateEvent_def Let_def
        split: option.splits)
  have 2: "\<forall>st. stream s = Some st \<longrightarrow> set st \<subseteq> set (stoppedTracks (closeCamera s))"
    by (simp add: closeCamera_def updatePhotoStatus_def dispatchPhotoUpdateEvent_def Let_def
        cancelTimer_frame split: option.splits)
  have 3: "\<not> timerActive (closeCamera s)" "stream (closeCamera s) = None"
    "timerCancellationCount (closeCamera s) =
        (if timerActive s then timerCancellationCount s + 1 else timerCancellationCount s)"
    "capturedPhotos (closeCamera s) = capturedPhotos s"
    "currentPoseIndex (closeCamera s) = currentPoseIndex s"
    "retakeCount (closeCamera s) = retakeCount s"
    "selectedTimer (closeCamera s) = selectedTimer s"
    by (simp_all add: closeCamera_def updatePhotoStatus_def dispatchPhotoUpdateEvent_def Let_def
        cancelTimer_frame split: option.splits)
  have 4: "capturedPhotos s \<noteq> [] \<and> currentPoseIndex s < 4 \<longrightarrow>
      openCamera (Inr st') (closeCamera s) = (closeCamera s)\<lparr>stream := Some st'\<rparr>"
    using 3(4,5) by (simp add: openCamera_def poseAt_def poses_def Let_def)
  from 1 2 3 4 show ?thesis
    by (simp only: Let_def simp_thms)
qed

text \<open>
  C6. The claim: from any state \<^verbatim>\<open>closeCamera\<close> cancels any active countdown, and that
  cancellation is counted.

  \<^verbatim>\<open>closeCamera\<close> cancels through \<^verbatim>\<open>cancelTimer\<close>, which does nothing unless
  \<^verbatim>\<open>timerActive\<close> is set. The interval that the first countdown leaves registered is
  unknown to it: closing the camera 200 ms after the first photo releases the stream and
  leaves that interval, which starts a capture at 6000 ms with the camera closed. And when
  the user has started a second countdown (handle 3), the tick of the left-over interval
  at 6000 ms resets \<^verbatim>\<open>timerActive\<close> and \<^verbatim>\<open>timerInterval\<close>; closing the camera then
  cancels nothing and counts nothing, and the user's countdown goes on, at 5 and 200 ms
  later at 4.
\<close>

theorem closeCamera_leaves_countdowns_running:
  "stream (run closedAfterPhoto) = None \<and>
   timerCancellationCount (run closedAfterPhoto) = 0 \<and>
   map handle (countdownIntervals (run closedAfterPhoto)) = [1] \<and>
   isCapturing (run (closedAfterPhoto @ [Elapse 800])) \<and>
   clock (run (closedAfterPhoto @ [Elapse 800])) = 6000 \<and>
   timerActive (run secondCountdown) \<and>
   timerInterval (run secondCountdown) = Some 3 \<and>
   \<not> timerActive (run (secondCountdown @ [Elapse 800, ToBlob (Some jpegBlob) ''photo6''])) \<and>
   stream (run (secondCountdown @
     [Elapse 800, ToBlob (Some jpegBlob) ''photo6'', ClickCloseCamera])) = None \<and>
   timerCancellationCount (run (secondCountdown @
     [Elapse 800, ToBlob (Some jpegBlob) ''photo6'', ClickCloseCamera])) = 0 \<and>
   map job (countdownIntervals (run (secondCountdown @
     [Elapse 800, ToBlob (Some jpegBlob) ''photo6'', ClickCloseCamera]))) =
     [Countdown (- 1), Countdown 5] \<and>
   map job (countdownIntervals (run (secondCountdown @
     [Elapse 800, ToBlob (Some jpegBlob) ''photo6'', ClickCloseCamera, Elapse 200]))) =
     [Countdown (- 1), Countdown 4]"
  by (simp add: closedAfterPhoto_def secondCountdown_def firstCountdown_def
      countdownIntervals_def session_defs concrete_simps)

section \<open>Complete sessions and the submission\<close>

text \<open>\<^verbatim>\<open>hasAllPhotos\<close> holds exactly when there are four photos, in every state; and on the
  loaded page every form that passes validation is submitted on the basic path.\<close>

lemma hasAllPhotos_iff: "hasAllPhotos s \<longleftrightarrow> length (capturedPhotos s) = 4"
  by (simp add: hasAllPhotos_def)

lemma submitForm_pageWith:
  "submitForm f (pageWith s) = (if validateAvatarForm f then Basic else Rejected)"
  by (simp add: submitForm_def pageWith_def)

text \<open>
  C7. The claim: \<^verbatim>\<open>hasAllPhotos\<close> is the sole condition deciding the enhanced submission
  path versus the basic one.

  The submit handler asks \<^verbatim>\<open>window.cameraController\<close> for it, and the page never sets
  that property: the controller lives in a top-level \<^verbatim>\<open>let\<close>. With four photos captured,
  \<^verbatim>\<open>hasAllPhotos\<close> true and a valid form, the submission is the basic one.
\<close>

theorem four_photos_submitted_basic:
  "length (capturedPhotos (run unattended)) = 4 \<and>
   hasAllPhotos (run unattended) \<and>
   cameraController (pageWith (run unattended)) = Some (run unattended) \<and>
   validateAvatarForm okForm \<and>
   submitForm okForm (pageWith (run unattended)) = Basic"
  by (simp add: submitForm_def pageWith_def okForm_def validateAvatarForm_def
      unattended_def firstCountdown_def session_defs concrete_simps)

section \<open>Notifications\<close>

text \<open>\<^verbatim>\<open>clearPhotos\<close> dispatches through \<^verbatim>\<open>updatePhotoStatus\<close> and once more itself.\<close>

lemma clearPhotos_notifies_twice:
  "length (notifications (clearPhotos s)) = length (notifications s) + 2"
  by (simp add: clearPhotos_def updatePhotoStatus_def dispatchPhotoUpdateEvent_def Let_def)

text \<open>
  C9, as claimed: every state-affecting operation, the pose advance among them, emits
  exactly one notification. The pose advance that fires at 6500 ms moves the index from 0
  to 1 and dispatches nothing.
\<close>

theorem pose_advance_without_notification:
  "currentPoseIndex (run secondPose) = 0 \<and>
   currentPoseIndex (run (secondPose @ [Elapse 500])) = 1 \<and>
   notifications (run (secondPose @ [Elapse 500])) = notifications (run secondPose)"
  by (simp add: secondPose_def firstCountdown_def session_defs concrete_simps)

text \<open>
  C9, amended: a successful capture, a retake at a pose index inside the catalog, and
  \<^verbatim>\<open>closeCamera\<close> each emit exactly one notification, which carries the photo count, the
  completion flag, the pose index and the timer-usage summary of the session as it then
  is. The scheduled pose advance, and starting or cancelling a countdown, emit none.
\<close>

theorem photos_updated_notifications:
  "(isCapturing s \<and> blobValid (Some bl) \<and> currentPoseIndex s < 4 \<longrightarrow>
      (let s' = toBlobDone (Some bl) url s
       in notifications s' = notifications s @
            [\<lparr>photoCount = length (capturedPhotos s'), detailHasAllPhotos = hasAllPhotos s',
              currentPose = currentPoseIndex s', detailTimerUsage = getTimerUsageStats s'\<rparr>])) \<and>
   (currentPoseIndex s < 4 \<longrightarrow>
      (let s' = retakeCurrentPhoto s
       in notifications s' = notifications s @
            [\<lparr>photoCount = length (capturedPhotos s'), detailHasAllPhotos = hasAllPhotos s',
              currentPose = currentPoseIndex s', detailTimerUsage = getTimerUsageStats s'\<rparr>])) \<and>
   (let s' = closeCamera s
    in notifications s' = notifications s @
         [\<lparr>photoCount = length (capturedPhotos s'), detailHasAllPhotos = hasAllPhotos s',
           currentPose = currentPoseIndex s', detailTimerUsage = getTimerUsageStats s'\<rparr>]) \<and>
   (job t = AdvancePose \<longrightarrow> notifications (fireTimer t s) = notifications s) \<and>
   notifications (startCaptureTimer s) = notifications s \<and>
   notifications (cancelTimer s) = notifications s"
proof -
  have a: "isCapturing s \<and> blobValid (Some bl) \<and> currentPoseIndex s < 4 \<longrightarrow>
      (let s' = toBlobDone (Some bl) url s
       in notifications s' = notifications s @
            [\<lparr>photoCount = length (capturedPhotos s'), detailHasAllPhotos = hasAllPhotos s',
              currentPose = currentPoseIndex s', detailTimerUsage = getTimerUsageStats s'\<rparr>])"
    by (simp add: toBlobDone_def storePhoto_def dispatchPhotoUpdateEvent_def setTimeout_def
        photoUpdateDetail_def hasAllPhotos_def getTimerUsageStats_def poseAt_def poses_def Let_def)
  have b: "currentPoseIndex s < 4 \<longrightarrow>
      (let s' = retakeCurrentPhoto s
       in notifications s' = notifications s @
            [\<lparr>photoCount = length (capturedPhotos s'), detailHasAllPhotos = hasAllPhotos s',
              currentPose = currentPoseIndex s', detailTimerUsage = getTimerUsageStats s'\<rparr>])"
    by (simp add: retakeCurrentPhoto_def dispatchPhotoUpdateEvent_def
        photoUpdateDetail_def hasAllPhotos_def getTimerUsageStats_def poseAt_def poses_def Let_def)
  have c: "let s' = closeCamera s
    in notifications s' = notifications s @
         [\<lparr>photoCount = length (capturedPhotos s'), detailHasAllPhotos = hasAllPhotos s',
           currentPose = currentPoseIndex s', detailTimerUsage = getTimerUsageStats s'\<rparr>]"
    by (simp add: closeCamera_def updatePhotoStatus_def dispatchPhotoUpdateEvent_def
        photoUpdateDetail_def hasAllPhotos_def getTimerUsageStats_def cancelTimer_frame Let_def
        split: option.splits)
  have d: "job t = AdvancePose \<longrightarrow> notifications (fireTimer t s) = notifications s"
    by (simp add: fireTimer_def clearInterval_def)
  have e: "notifications (startCaptureTimer s) = notifications s"
    by (simp add: startCaptureTimer_def Let_def split: option.splits)
  have f: "notifications (cancelTimer s) = notifications s"
    by (simp add: cancelTimer_frame)
  from a b c d e f show ?thesis
    by (simp only: simp_thms)
qed

text \<open>Witness for C9: the photo after the first countdown, whose one notification reports
  one photo at pose 0 taken with the 5 s timer; a retake in that session; and the pose
  advance pending in it.\<close>

theorem photos_updated_notifications_witness:
  "isCapturing (run firstCountdown) \<and> blobValid (Some jpegBlob) \<and>
   currentPoseIndex (run firstCountdown) < 4 \<and>
   notifications (toBlobDone (Some jpegBlob) ''photo5'' (run firstCountdown)) =
     notifications (run firstCountdown) @
       [\<lparr>photoCount = 1, detailHasAllPhotos = False, currentPose = 0,
         detailTimerUsage = Some \<lparr>timer5sCount = 1, timer10sCount = 0, averageTimer = 5,
           usageRetakeCount = 0, usageCancellationCount = 0\<rparr>\<rparr>] \<and>
   length (notifications (retakeCurrentPhoto (run secondPose))) =
     length (notifications (run secondPose)) + 1 \<and>
   job \<lparr>handle = 4, due = 7500, job = AdvancePose\<rparr> = AdvancePose \<and>
   notifications (fireTimer \<lparr>handle = 4, due = 7500, job = AdvancePose\<rparr> (run secondPose)) =
     notifications (run secondPose)"
  using photos_updated_notifications [of "run firstCountdown" jpegBlob "''photo5''"
      "\<lparr>handle = 4, due = 7500, job = AdvancePose\<rparr>"]
    photos_updated_notifications [of "run secondPose" jpegBlob "''photo5''"
      "\<lparr>handle = 4, due = 7500, job = AdvancePose\<rparr>"]
  by (simp add: secondPose_def firstCountdown_def session_defs concrete_simps)

end
